theory Spec2Isabelle
  imports Complex_Main "HOL-Library.Multiset"
begin

section \<open>Lung cancer survival analysis: the SQL pipeline of 01_analysis.py\<close>

text \<open>
  The notebook builds three temporary views by SQL over the tables
  \<^verbatim>\<open>patients\<close>, \<^verbatim>\<open>conditions\<close> and \<^verbatim>\<open>encounters\<close>:
  \<^verbatim>\<open>lung_cancer_cohort\<close>, \<^verbatim>\<open>lung_cancer_patients_dataset\<close> and
  \<^verbatim>\<open>lung_cancer_survival_data\<close>. A table is a list of rows (a bag of rows in some
  physical order), a row is a record, and a nullable column is an \<open>option\<close> with
  \<open>None\<close> for SQL NULL. Every view is a function from its input tables to its rows.
\<close>

subsection \<open>SQL values and built-in functions\<close>

text \<open>
  A DATE is the number of days since 1970-01-01, as the engine stores it. \<open>date_of y m d\<close>
  is the date written \<^verbatim>\<open>y-m-d\<close> in the proleptic Gregorian calendar, and NULL when there is
  no such calendar day between the years 1 and 9999.
\<close>

type_synonym date = int

definition isLeapYear :: "int \<Rightarrow> bool" where
  "isLeapYear y = (if y mod 400 = 0 then True else if y mod 100 = 0 then False else y mod 4 = 0)"

definition lengthOfMonth :: "int \<Rightarrow> int \<Rightarrow> int" where
  "lengthOfMonth y m =
     (if m = 2 then (if isLeapYear y then 29 else 28)
      else if m = 4 then 30 else if m = 6 then 30 else if m = 9 then 30 else if m = 11 then 30
      else 31)"

definition toEpochDay :: "int \<Rightarrow> int \<Rightarrow> int \<Rightarrow> date" where
  "toEpochDay y m d =
     (let total = 365 * y + ((y + 3) div 4 - (y + 99) div 100 + (y + 399) div 400)
                  + (367 * m - 362) div 12 + (d - 1);
          total' = (if 2 < m then (if isLeapYear y then total - 1 else total - 2) else total)
      in total' - 719528)"

definition date_of :: "int \<Rightarrow> int \<Rightarrow> int \<Rightarrow> date option" where
  "date_of y m d =
     (if 1 \<le> y \<and> y \<le> 9999 \<and> 1 \<le> m \<and> m \<le> 12 \<and> 1 \<le> d \<and> d \<le> lengthOfMonth y m
      then Some (toEpochDay y m d) else None)"

text \<open>
  \<^verbatim>\<open>to_date\<close> of a date-valued cell is that day, and NULL stays NULL. The model
  starts from the calendar day of each date cell, so the cast is the identity.
\<close>

definition to_date :: "date option \<Rightarrow> date option" where
  "to_date c = c"

text \<open>\<^verbatim>\<open>datediff(end, start)\<close>: the number of days from start to end; NULL when either is NULL.\<close>

fun datediff :: "date option \<Rightarrow> date option \<Rightarrow> int option" where
  "datediff (Some e) (Some s) = Some (e - s)"
| "datediff _ _ = None"

text \<open>
  \<^verbatim>\<open>round(x)\<close> rounds half away from zero. The quotient of a day count by 356 is
  a multiple of 1/356, so it either is a tie exactly or is at least 1/712 away from
  one: rounding the exact quotient gives the value the engine computes.
\<close>

definition sql_round :: "rat \<Rightarrow> int" where
  "sql_round q = (if 0 \<le> q then \<lfloor>q + 1 / 2\<rfloor> else - \<lfloor>- q + 1 / 2\<rfloor>)"

text \<open>
  A comparison involving NULL is unknown; in WHERE, in ON and in CASE WHEN an unknown
  condition counts as not satisfied.
\<close>

fun sql_eq :: "'a option \<Rightarrow> 'a option \<Rightarrow> bool" where
  "sql_eq (Some a) (Some b) = (a = b)"
| "sql_eq _ _ = False"

definition sql_in :: "'a option \<Rightarrow> 'a list \<Rightarrow> bool" where
  "sql_in v vs = list_ex (\<lambda>w. sql_eq v (Some w)) vs"

text \<open>The aggregate \<^verbatim>\<open>max\<close> skips NULLs and is NULL when the group has no other value.\<close>

fun sql_max2 :: "int option \<Rightarrow> int option \<Rightarrow> int option" where
  "sql_max2 None b = b"
| "sql_max2 (Some a) None = Some a"
| "sql_max2 (Some a) (Some b) = Some (max a b)"

fun sql_max :: "int option list \<Rightarrow> int option" where
  "sql_max [] = None"
| "sql_max (v # vs) = sql_max2 v (sql_max vs)"

text \<open>An inner join: every pair of rows that satisfies the ON condition, combined.\<close>

definition inner_join :: "('a \<Rightarrow> 'b \<Rightarrow> bool) \<Rightarrow> ('a \<Rightarrow> 'b \<Rightarrow> 'c) \<Rightarrow> 'a list \<Rightarrow> 'b list \<Rightarrow> 'c list" where
  "inner_join cond sel xs ys = concat (map (\<lambda>x. map (sel x) (filter (cond x) ys)) xs)"

subsection \<open>The input tables\<close>

record patients =
  pat_Id :: "string option"
  pat_BIRTHDATE :: "date option"
  pat_DEATHDATE :: "date option"
  pat_GENDER :: "string option"

record conditions =
  cond_START :: "date option"
  cond_PATIENT :: "string option"
  cond_CODE :: "int option"
  cond_DESCRIPTION :: "string option"

record encounters =
  enc_PATIENT :: "string option"
  enc_STOP :: "date option"

subsection \<open>The views\<close>

record cohort_row =
  lcc_PATIENT :: "string option"
  lcc_START_DATE :: "date option"
  lcc_type :: string

record last_date_row =
  ld_PATIENT :: "string option"
  ld_last_date_on_record :: "date option"

record patients_and_dates_row =
  pad_Id :: "string option"
  pad_BIRTHDATE :: "date option"
  pad_death_date :: "date option"
  pad_GENDER :: "string option"
  pad_last_date_on_record :: "date option"

record dataset_row =
  ds_PATIENT :: "string option"
  ds_START_DATE :: "date option"
  ds_type :: string
  ds_Id :: "string option"
  ds_BIRTHDATE :: "date option"
  ds_death_date :: "date option"
  ds_GENDER :: "string option"
  ds_last_date_on_record :: "date option"
  ds_age_at_diagnosis :: "int option"

record survival_row =
  sv_START_DATE :: "date option"
  sv_death_date :: "date option"
  sv_GENDER :: "string option"
  sv_type :: string
  sv_age_at_diagnosis :: "int option"
  sv_status :: int
  sv_time :: "int option"

text \<open>
  \<^verbatim>\<open>select PATIENT, to_date(START) as START_DATE,
     CASE WHEN CODE==254632001 THEN 'SCLC' ELSE 'NSCLC' END as type
   from conditions where code in (254632001,254637007)\<close>
\<close>

definition lung_cancer_cohort :: "conditions list \<Rightarrow> cohort_row list" where
  "lung_cancer_cohort conds =
     map (\<lambda>c. \<lparr>lcc_PATIENT = cond_PATIENT c,
               lcc_START_DATE = to_date (cond_START c),
               lcc_type = (if sql_eq (cond_CODE c) (Some 254632001) then ''SCLC'' else ''NSCLC'')\<rparr>)
         (filter (\<lambda>c. sql_in (cond_CODE c) [254632001, 254637007]) conds)"

text \<open>
  \<^verbatim>\<open>select PATIENT, max(to_date(STOP)) as last_date_on_record from encounters group by PATIENT\<close>:
  one row for each distinct value of PATIENT (NULL is a group of its own).
\<close>

definition last_date_on_record :: "encounters list \<Rightarrow> last_date_row list" where
  "last_date_on_record encs =
     map (\<lambda>k. \<lparr>ld_PATIENT = k,
               ld_last_date_on_record =
                 sql_max (map (\<lambda>e. to_date (enc_STOP e)) (filter (\<lambda>e. enc_PATIENT e = k) encs))\<rparr>)
         (remdups (map enc_PATIENT encs))"

text \<open>
  \<^verbatim>\<open>select Id, to_date(BIRTHDATE) as BIRTHDATE, to_date(DEATHDATE) death_date, GENDER,
     ld.last_date_on_record
   from patients join last_date_on_record ld on ld.PATIENT == patients.Id\<close>
\<close>

definition patients_and_dates :: "patients list \<Rightarrow> encounters list \<Rightarrow> patients_and_dates_row list" where
  "patients_and_dates pats encs =
     inner_join (\<lambda>p ld. sql_eq (ld_PATIENT ld) (pat_Id p))
       (\<lambda>p ld. \<lparr>pad_Id = pat_Id p,
                 pad_BIRTHDATE = to_date (pat_BIRTHDATE p),
                 pad_death_date = to_date (pat_DEATHDATE p),
                 pad_GENDER = pat_GENDER p,
                 pad_last_date_on_record = ld_last_date_on_record ld\<rparr>)
       pats (last_date_on_record encs)"

text \<open>
  \<^verbatim>\<open>SELECT *, round(datediff(START_DATE,BIRTHDATE)/356) as age_at_diagnosis
   from lung_cancer_cohort lcc join patients_and_dates pad on lcc.PATIENT = pad.Id\<close>
\<close>

definition age_at_diagnosis :: "date option \<Rightarrow> date option \<Rightarrow> int option" where
  "age_at_diagnosis START_DATE BIRTHDATE =
     map_option (\<lambda>n. sql_round (of_int n / 356)) (datediff START_DATE BIRTHDATE)"

definition lung_cancer_patients_dataset ::
  "patients list \<Rightarrow> conditions list \<Rightarrow> encounters list \<Rightarrow> dataset_row list" where
  "lung_cancer_patients_dataset pats conds encs =
     inner_join (\<lambda>lcc pad. sql_eq (lcc_PATIENT lcc) (pad_Id pad))
       (\<lambda>lcc pad. \<lparr>ds_PATIENT = lcc_PATIENT lcc,
                    ds_START_DATE = lcc_START_DATE lcc,
                    ds_type = lcc_type lcc,
                    ds_Id = pad_Id pad,
                    ds_BIRTHDATE = pad_BIRTHDATE pad,
                    ds_death_date = pad_death_date pad,
                    ds_GENDER = pad_GENDER pad,
                    ds_last_date_on_record = pad_last_date_on_record pad,
                    ds_age_at_diagnosis = age_at_diagnosis (lcc_START_DATE lcc) (pad_BIRTHDATE pad)\<rparr>)
       (lung_cancer_cohort conds) (patients_and_dates pats encs)"

text \<open>
  \<^verbatim>\<open>SELECT START_DATE, death_date, GENDER, type, age_at_diagnosis,
     CASE WHEN death_date is null THEN 0 ELSE 1 END as status,
     CASE WHEN death_date is null THEN datediff(last_date_on_record,START_DATE)
          ELSE datediff(death_date,START_DATE) END as time
   FROM lung_cancer_patients_dataset\<close>
\<close>

definition lung_cancer_survival_data :: "dataset_row list \<Rightarrow> survival_row list" where
  "lung_cancer_survival_data ds =
     map (\<lambda>r. \<lparr>sv_START_DATE = ds_START_DATE r,
               sv_death_date = ds_death_date r,
               sv_GENDER = ds_GENDER r,
               sv_type = ds_type r,
               sv_age_at_diagnosis = ds_age_at_diagnosis r,
               sv_status = (if ds_death_date r = None then 0 else 1),
               sv_time = (if ds_death_date r = None
                          then datediff (ds_last_date_on_record r) (ds_START_DATE r)
                          else datediff (ds_death_date r) (ds_START_DATE r))\<rparr>)
         ds"

text \<open>The whole transformation, from the three tables to the survival records.\<close>

definition pipeline :: "patients list \<Rightarrow> conditions list \<Rightarrow> encounters list \<Rightarrow> survival_row list" where
  "pipeline pats conds encs = lung_cancer_survival_data (lung_cancer_patients_dataset pats conds encs)"

text \<open>
  The columns that \<^verbatim>\<open>SELECT *\<close> takes from \<^verbatim>\<open>lung_cancer_cohort\<close> into a row of the
  patients dataset: the cohort entry the row was joined from.
\<close>

definition lcc_columns :: "dataset_row \<Rightarrow> cohort_row" where
  "lcc_columns r = \<lparr>lcc_PATIENT = ds_PATIENT r, lcc_START_DATE = ds_START_DATE r, lcc_type = ds_type r\<rparr>"

subsection \<open>The Kaplan-Meier estimator\<close>

text \<open>
  The notebook calls \<^verbatim>\<open>kmf.fit(T, E)\<close> of the lifelines package and reads
  \<^verbatim>\<open>kmf.survival_function_\<close>. The package is not part of the repository, so the
  estimator is modelled from the specification's description of it, over exact rationals:
  \<open>T\<close> is the sequence of durations and \<open>E\<close> the sequence of event indicators.
\<close>

text \<open>
  Modelled from the spec: the inputs the estimator of lifelines (absent from the sources)
  accepts as valid. "Two equal-length sequences: durations (non-negative numeric) and
  event-indicators (0/1)", non-empty.
\<close>

definition valid_input :: "rat list \<Rightarrow> int list \<Rightarrow> bool" where
  "valid_input T E \<longleftrightarrow>
     T \<noteq> [] \<and> length T = length E \<and> list_all (\<lambda>u. 0 \<le> u) T \<and> list_all (\<lambda>e. e = 0 \<or> e = 1) E"

text \<open>
  Modelled from the spec: the durations of the observations of lifelines' input whose event
  was observed (indicator 1), one entry for each such observation.
\<close>

definition observed_events :: "rat list \<Rightarrow> int list \<Rightarrow> rat list" where
  "observed_events T E = map fst (filter (\<lambda>(u, e). e = 1) (zip T E))"

text \<open>
  Modelled from the spec: the "distinct observed event times" \<open>t_i\<close> of lifelines' estimator.
\<close>

definition event_times :: "rat list \<Rightarrow> int list \<Rightarrow> rat list" where
  "event_times T E = remdups (observed_events T E)"

text \<open>
  Modelled from the spec: \<open>d_i\<close> of lifelines' estimator, the "number of events at \<open>t_i\<close>".
\<close>

definition events_at :: "rat list \<Rightarrow> int list \<Rightarrow> rat \<Rightarrow> nat" where
  "events_at T E u = length (filter (\<lambda>v. v = u) (observed_events T E))"

text \<open>
  Modelled from the spec: \<open>n_i\<close> of lifelines' estimator, the "number still at risk just
  before \<open>t_i\<close>": the observations, censored or not, whose duration is at least \<open>t_i\<close>.
\<close>

definition at_risk :: "rat list \<Rightarrow> rat \<Rightarrow> nat" where
  "at_risk T u = length (filter (\<lambda>v. u \<le> v) T)"

text \<open>
  Modelled from the spec: the factor \<open>1 - d_i / n_i\<close> by which lifelines' estimator updates
  the survival probability at the event time \<open>t_i\<close>.
\<close>

definition km_factor :: "rat list \<Rightarrow> int list \<Rightarrow> rat \<Rightarrow> rat" where
  "km_factor T E u = 1 - of_nat (events_at T E u) / of_nat (at_risk T u)"

text \<open>
  Modelled from the spec: the survival function \<open>S(t)\<close> of lifelines' KaplanMeierFitter, the
  step function "multiplicatively updated by \<open>1 - d_i / n_i\<close>" "at each distinct observed
  event time": the product of the factors of the event times up to and including \<open>t\<close>.
\<close>

definition survival_function :: "rat list \<Rightarrow> int list \<Rightarrow> rat \<Rightarrow> rat" where
  "survival_function T E t =
     prod_list (map (km_factor T E) (filter (\<lambda>u. u \<le> t) (event_times T E)))"

section \<open>Basic facts about the built-in functions\<close>

text \<open>Rounding a quotient by 356 half away from zero, in integer arithmetic.\<close>

lemma sql_round_quot:
  "sql_round (of_int n / 356) = (if 0 \<le> n then (2 * n + 356) div 712 else - ((356 - 2 * n) div 712))"
proof -
  have a: "(of_int n / 356 + 1 / 2 :: rat) = of_int (2 * n + 356) / of_int 712" by simp
  have b: "(- (of_int n / 356) + 1 / 2 :: rat) = of_int (356 - 2 * n) / of_int 712" by simp
  have c: "(0 \<le> (of_int n / 356 :: rat)) = (0 \<le> n)" by (simp add: zero_le_divide_iff)
  show ?thesis
    unfolding sql_round_def c a b floor_divide_of_int_eq by simp
qed

text \<open>The day numbers of the calendar dates used below.\<close>

lemma date_2021_01_01: "date_of 2021 1 1 = Some 18628" by code_simp
lemma date_2021_04_01: "date_of 2021 4 1 = Some 18718" by code_simp
lemma date_2021_07_01: "date_of 2021 7 1 = Some 18809" by code_simp
lemma date_2021_12_01: "date_of 2021 12 1 = Some 18962" by code_simp
lemma date_1950_01_01: "date_of 1950 1 1 = Some (- 7305)" by code_simp
lemma date_2020_01_01: "date_of 2020 1 1 = Some 18262" by code_simp

lemma length_survival [simp]: "length (lung_cancer_survival_data ds) = length ds"
  by (simp add: lung_cancer_survival_data_def)

lemma nth_survival:
  "i < length ds \<Longrightarrow> lung_cancer_survival_data ds ! i =
     \<lparr>sv_START_DATE = ds_START_DATE (ds ! i),
      sv_death_date = ds_death_date (ds ! i),
      sv_GENDER = ds_GENDER (ds ! i),
      sv_type = ds_type (ds ! i),
      sv_age_at_diagnosis = ds_age_at_diagnosis (ds ! i),
      sv_status = (if ds_death_date (ds ! i) = None then 0 else 1),
      sv_time = (if ds_death_date (ds ! i) = None
                 then datediff (ds_last_date_on_record (ds ! i)) (ds_START_DATE (ds ! i))
                 else datediff (ds_death_date (ds ! i)) (ds_START_DATE (ds ! i)))\<rparr>"
  by (simp add: lung_cancer_survival_data_def)

section \<open>Facts about the joins\<close>

lemma set_inner_join:
  "set (inner_join cond sel xs ys) = {sel x y | x y. x \<in> set xs \<and> y \<in> set ys \<and> cond x y}"
  by (auto simp add: inner_join_def)

lemma sql_eq_iff: "sql_eq a b \<longleftrightarrow> (\<exists>k. a = Some k \<and> b = Some k)"
  by (cases a; cases b) auto

lemma sql_max_None_iff: "sql_max vs = None \<longleftrightarrow> (\<forall>v \<in> set vs. v = None)"
proof (induction vs)
  case Nil
  show ?case by simp
next
  case (Cons v vs)
  show ?case
  proof (cases v)
    case None
    with Cons show ?thesis by simp
  next
    case (Some a)
    then show ?thesis by (cases "sql_max vs") simp_all
  qed
qed

lemma set_last_date_on_record:
  "set (last_date_on_record encs) =
     (\<lambda>k. \<lparr>ld_PATIENT = k,
            ld_last_date_on_record =
              sql_max (map (\<lambda>e. to_date (enc_STOP e)) (filter (\<lambda>e. enc_PATIENT e = k) encs))\<rparr>)
       ` enc_PATIENT ` set encs"
  by (simp add: last_date_on_record_def)

lemma in_patients_and_dates:
  assumes "r \<in> set (patients_and_dates pats encs)"
  obtains p k where "p \<in> set pats" and "pat_Id p = Some k" and "Some k \<in> enc_PATIENT ` set encs"
    and "r = \<lparr>pad_Id = Some k, pad_BIRTHDATE = pat_BIRTHDATE p, pad_death_date = pat_DEATHDATE p,
              pad_GENDER = pat_GENDER p,
              pad_last_date_on_record =
                sql_max (map enc_STOP (filter (\<lambda>e. enc_PATIENT e = Some k) encs))\<rparr>"
proof -
  from assms obtain p l where p: "p \<in> set pats" and l: "l \<in> set (last_date_on_record encs)"
    and eq: "sql_eq (ld_PATIENT l) (pat_Id p)"
    and r: "r = \<lparr>pad_Id = pat_Id p, pad_BIRTHDATE = to_date (pat_BIRTHDATE p),
                 pad_death_date = to_date (pat_DEATHDATE p), pad_GENDER = pat_GENDER p,
                 pad_last_date_on_record = ld_last_date_on_record l\<rparr>"
    unfolding patients_and_dates_def set_inner_join by blast
  from eq obtain k where k: "ld_PATIENT l = Some k" "pat_Id p = Some k"
    unfolding sql_eq_iff by blast
  from l obtain k' where k': "k' \<in> enc_PATIENT ` set encs"
    and l': "l = \<lparr>ld_PATIENT = k', ld_last_date_on_record =
              sql_max (map (\<lambda>e. to_date (enc_STOP e)) (filter (\<lambda>e. enc_PATIENT e = k') encs))\<rparr>"
    unfolding set_last_date_on_record by blast
  from l' k have kk: "k' = Some k" by simp
  show thesis
  proof (rule that [OF p k(2)])
    show "Some k \<in> enc_PATIENT ` set encs" using k' kk by simp
    show "r = \<lparr>pad_Id = Some k, pad_BIRTHDATE = pat_BIRTHDATE p, pad_death_date = pat_DEATHDATE p,
              pad_GENDER = pat_GENDER p,
              pad_last_date_on_record =
                sql_max (map enc_STOP (filter (\<lambda>e. enc_PATIENT e = Some k) encs))\<rparr>"
      using r l' kk k by (simp add: to_date_def)
  qed
qed

lemma in_dataset:
  assumes "r \<in> set (lung_cancer_patients_dataset pats conds encs)"
  obtains c pad where "c \<in> set (lung_cancer_cohort conds)"
    and "pad \<in> set (patients_and_dates pats encs)"
    and "sql_eq (lcc_PATIENT c) (pad_Id pad)"
    and "r = \<lparr>ds_PATIENT = lcc_PATIENT c, ds_START_DATE = lcc_START_DATE c, ds_type = lcc_type c,
              ds_Id = pad_Id pad, ds_BIRTHDATE = pad_BIRTHDATE pad,
              ds_death_date = pad_death_date pad, ds_GENDER = pad_GENDER pad,
              ds_last_date_on_record = pad_last_date_on_record pad,
              ds_age_at_diagnosis = age_at_diagnosis (lcc_START_DATE c) (pad_BIRTHDATE pad)\<rparr>"
  using assms unfolding lung_cancer_patients_dataset_def set_inner_join by blast

lemma dataset_last_date:
  assumes "r \<in> set (lung_cancer_patients_dataset pats conds encs)"
  shows "\<exists>k. ds_PATIENT r = Some k \<and> Some k \<in> enc_PATIENT ` set encs \<and>
             ds_last_date_on_record r =
               sql_max (map enc_STOP (filter (\<lambda>e. enc_PATIENT e = Some k) encs))"
proof -
  from assms obtain c pad where c: "c \<in> set (lung_cancer_cohort conds)"
    and pad: "pad \<in> set (patients_and_dates pats encs)"
    and eq: "sql_eq (lcc_PATIENT c) (pad_Id pad)"
    and r: "r = \<lparr>ds_PATIENT = lcc_PATIENT c, ds_START_DATE = lcc_START_DATE c, ds_type = lcc_type c,
              ds_Id = pad_Id pad, ds_BIRTHDATE = pad_BIRTHDATE pad,
              ds_death_date = pad_death_date pad, ds_GENDER = pad_GENDER pad,
              ds_last_date_on_record = pad_last_date_on_record pad,
              ds_age_at_diagnosis = age_at_diagnosis (lcc_START_DATE c) (pad_BIRTHDATE pad)\<rparr>"
    by (rule in_dataset)
  from pad obtain p k where p: "p \<in> set pats" and pk: "pat_Id p = Some k"
    and k: "Some k \<in> enc_PATIENT ` set encs"
    and pd: "pad = \<lparr>pad_Id = Some k, pad_BIRTHDATE = pat_BIRTHDATE p, pad_death_date = pat_DEATHDATE p,
              pad_GENDER = pat_GENDER p,
              pad_last_date_on_record =
                sql_max (map enc_STOP (filter (\<lambda>e. enc_PATIENT e = Some k) encs))\<rparr>"
    by (rule in_patients_and_dates)
  from eq pd have "lcc_PATIENT c = Some k" by (simp add: sql_eq_iff)
  with r pd k show ?thesis by simp
qed

lemma dataset_age:
  assumes "r \<in> set (lung_cancer_patients_dataset pats conds encs)"
  shows "ds_age_at_diagnosis r = age_at_diagnosis (ds_START_DATE r) (ds_BIRTHDATE r)"
  using assms by (rule in_dataset) simp

lemma length_pipeline:
  "length (pipeline pats conds encs) = length (lung_cancer_patients_dataset pats conds encs)"
  by (simp add: pipeline_def)

lemma nth_pipeline:
  "i < length (lung_cancer_patients_dataset pats conds encs) \<Longrightarrow>
   pipeline pats conds encs ! i =
     lung_cancer_survival_data (lung_cancer_patients_dataset pats conds encs) ! i"
  by (simp add: pipeline_def)

lemma datediff_Some_iff: "datediff a b = Some n \<longleftrightarrow> (\<exists>e d. a = Some e \<and> b = Some d \<and> n = e - d)"
  by (cases a; cases b) auto


lemma sql_max_filter_not_None:
  "sql_max (map enc_STOP (filter (\<lambda>e. enc_PATIENT e = Some k) encs)) \<noteq> None \<longleftrightarrow>
   (\<exists>e \<in> set encs. sql_eq (enc_PATIENT e) (Some k) \<and> enc_STOP e \<noteq> None)"
  by (auto simp add: sql_max_None_iff sql_eq_iff)


section \<open>Row order does not matter\<close>

lemma mset_inner_join:
  "mset (inner_join cond sel xs ys) =
     (\<Sum>x \<in># mset xs. image_mset (sel x) (filter_mset (cond x) (mset ys)))"
  by (induction xs) (simp_all add: inner_join_def)

lemma mset_inner_join_cong:
  "mset xs = mset xs' \<Longrightarrow> mset ys = mset ys' \<Longrightarrow>
   mset (inner_join cond sel xs ys) = mset (inner_join cond sel xs' ys')"
  by (simp only: mset_inner_join)

lemma sql_max2_left_commute: "sql_max2 a (sql_max2 b c) = sql_max2 b (sql_max2 a c)"
  by (cases a; cases b; cases c) (simp_all add: max.left_commute)

lemma sql_max_fold: "sql_max vs = fold sql_max2 (rev vs) None"
  by (induction vs) simp_all

lemma sql_max_mset_cong:
  assumes "mset vs = mset ws"
  shows "sql_max vs = sql_max ws"
proof -
  have "fold sql_max2 (rev vs) = fold sql_max2 (rev ws)"
  proof (rule fold_multiset_equiv)
    show "sql_max2 x \<circ> sql_max2 y = sql_max2 y \<circ> sql_max2 x" for x y
      by (rule ext) (simp add: sql_max2_left_commute)
    show "mset (rev vs) = mset (rev ws)" using assms by simp
  qed
  then show ?thesis by (simp only: sql_max_fold)
qed

lemma mset_last_date_on_record_cong:
  assumes "mset encs = mset encs'"
  shows "mset (last_date_on_record encs) = mset (last_date_on_record encs')"
proof -
  have grp: "sql_max (map (\<lambda>e. to_date (enc_STOP e)) (filter (\<lambda>e. enc_PATIENT e = k) encs)) =
             sql_max (map (\<lambda>e. to_date (enc_STOP e)) (filter (\<lambda>e. enc_PATIENT e = k) encs'))" for k
  proof (rule sql_max_mset_cong)
    show "mset (map (\<lambda>e. to_date (enc_STOP e)) (filter (\<lambda>e. enc_PATIENT e = k) encs)) =
          mset (map (\<lambda>e. to_date (enc_STOP e)) (filter (\<lambda>e. enc_PATIENT e = k) encs'))"
      using assms by (simp only: mset_map mset_filter)
  qed
  have "set_mset (mset (map enc_PATIENT encs)) = set_mset (mset (map enc_PATIENT encs'))"
    using assms by (simp only: mset_map)
  then have "set (map enc_PATIENT encs) = set (map enc_PATIENT encs')"
    by (simp only: set_mset_mset)
  then have keys: "mset (remdups (map enc_PATIENT encs)) = mset (remdups (map enc_PATIENT encs'))"
    by (simp only: set_eq_iff_mset_remdups_eq)
  show ?thesis
    by (simp only: last_date_on_record_def mset_map grp keys)
qed

lemma mset_cohort_cong:
  "mset conds = mset conds' \<Longrightarrow> mset (lung_cancer_cohort conds) = mset (lung_cancer_cohort conds')"
  by (simp only: lung_cancer_cohort_def mset_map mset_filter)

lemma mset_patients_and_dates_cong:
  assumes "mset pats = mset pats'" and "mset encs = mset encs'"
  shows "mset (patients_and_dates pats encs) = mset (patients_and_dates pats' encs')"
  unfolding patients_and_dates_def
  using assms(1) mset_last_date_on_record_cong [OF assms(2)] by (rule mset_inner_join_cong)

lemma mset_dataset_cong:
  assumes "mset pats = mset pats'" and "mset conds = mset conds'" and "mset encs = mset encs'"
  shows "mset (lung_cancer_patients_dataset pats conds encs) =
         mset (lung_cancer_patients_dataset pats' conds' encs')"
  unfolding lung_cancer_patients_dataset_def
  using mset_cohort_cong [OF assms(2)] mset_patients_and_dates_cong [OF assms(1) assms(3)]
  by (rule mset_inner_join_cong)


section \<open>Counting the rows of a join\<close>

lemma sql_eq_commute: "sql_eq a b = sql_eq b a"
  by (cases a; cases b) auto

lemma length_filter_distinct:
  "distinct (map f xs) \<Longrightarrow> length (filter (\<lambda>x. f x = v) xs) = (if v \<in> f ` set xs then 1 else 0)"
  by (induction xs) auto

lemma length_filter_sql_eq:
  assumes "distinct (map f xs)"
  shows "length (filter (\<lambda>x. sql_eq a (f x)) xs) = (if a \<noteq> None \<and> a \<in> f ` set xs then 1 else 0)"
proof (cases a)
  case None
  then show ?thesis by simp
next
  case (Some k)
  have "(\<lambda>x. sql_eq (Some k) (f x)) = (\<lambda>x. f x = Some k)"
    by (rule ext) (auto simp add: sql_eq_iff)
  with length_filter_distinct [OF assms, of "Some k"] Some show ?thesis by simp
qed

lemma map_inner_join_left:
  assumes "\<And>x y. g (sel x y) = h x"
  shows "map g (inner_join cond sel xs ys) =
           concat (map (\<lambda>x. replicate (length (filter (cond x) ys)) (h x)) xs)"
proof -
  have "map g (map (sel x) zs) = replicate (length zs) (h x)" for x zs
    by (induction zs) (simp_all add: assms)
  then show ?thesis
    by (simp add: inner_join_def map_concat comp_def)
qed

lemma concat_replicate_filter:
  assumes "\<And>x. x \<in> set xs \<Longrightarrow> n x = (if P x then 1 else (0::nat))"
  shows "concat (map (\<lambda>x. replicate (n x) (h x)) xs) = map h (filter P xs)"
  using assms by (induction xs) simp_all

lemma distinct_last_date_on_record: "distinct (map ld_PATIENT (last_date_on_record encs))"
  by (simp add: last_date_on_record_def comp_def)

lemma keys_last_date_on_record: "ld_PATIENT ` set (last_date_on_record encs) = enc_PATIENT ` set encs"
  by (simp add: set_last_date_on_record image_image)

lemma pad_Id_patients_and_dates:
  "map pad_Id (patients_and_dates pats encs) =
     map pat_Id (filter (\<lambda>p. pat_Id p \<noteq> None \<and> pat_Id p \<in> enc_PATIENT ` set encs) pats)"
proof -
  have cnt: "length (filter (\<lambda>ld. sql_eq (ld_PATIENT ld) (pat_Id p)) (last_date_on_record encs)) =
          (if pat_Id p \<noteq> None \<and> pat_Id p \<in> enc_PATIENT ` set encs then 1 else 0)" for p
    using length_filter_sql_eq [OF distinct_last_date_on_record, of "pat_Id p" encs]
    by (simp only: sql_eq_commute [of "pat_Id p"] keys_last_date_on_record)
  have "map pad_Id (patients_and_dates pats encs) =
          concat (map (\<lambda>p. replicate
             (length (filter (\<lambda>ld. sql_eq (ld_PATIENT ld) (pat_Id p)) (last_date_on_record encs)))
             (pat_Id p)) pats)"
    unfolding patients_and_dates_def by (rule map_inner_join_left) simp
  also have "\<dots> = map pat_Id
       (filter (\<lambda>p. pat_Id p \<noteq> None \<and> pat_Id p \<in> enc_PATIENT ` set encs) pats)"
    by (rule concat_replicate_filter) (rule cnt)
  finally show ?thesis .
qed

lemma distinct_pad_Id:
  "distinct (map pat_Id pats) \<Longrightarrow> distinct (map pad_Id (patients_and_dates pats encs))"
  by (simp only: pad_Id_patients_and_dates distinct_map_filter)

lemma set_pad_Id:
  "pad_Id ` set (patients_and_dates pats encs) =
     {k \<in> pat_Id ` set pats. k \<noteq> None \<and> k \<in> enc_PATIENT ` set encs}"
proof -
  have "pad_Id ` set (patients_and_dates pats encs) = set (map pad_Id (patients_and_dates pats encs))"
    by simp
  also have "\<dots> = {k \<in> pat_Id ` set pats. k \<noteq> None \<and> k \<in> enc_PATIENT ` set encs}"
    unfolding pad_Id_patients_and_dates by auto
  finally show ?thesis .
qed

lemma has_encounter_and_record_iff:
  "(\<exists>e \<in> set encs. sql_eq (enc_PATIENT e) a) \<and> (\<exists>p \<in> set pats. sql_eq (pat_Id p) a) \<longleftrightarrow>
   a \<noteq> None \<and> a \<in> pad_Id ` set (patients_and_dates pats encs)"
  unfolding set_pad_Id by (cases a) (auto simp add: sql_eq_iff image_iff intro: sym)


section \<open>Facts about the Kaplan-Meier product\<close>

lemma events_le_at_risk_aux:
  "length (filter (\<lambda>v. v = u) (map fst (filter P (zip T E)))) \<le>
   length (filter (\<lambda>v. (u::rat) \<le> v) T)"
proof (induction T arbitrary: E)
  case Nil
  show ?case by simp
next
  case (Cons a T)
  show ?case
  proof (cases E)
    case Nil
    then show ?thesis by simp
  next
    case (Cons e E')
    with Cons.IH [of E'] show ?thesis by (auto simp add: le_Suc_eq)
  qed
qed

lemma events_le_at_risk: "events_at T E u \<le> at_risk T u"
  unfolding events_at_def at_risk_def observed_events_def by (rule events_le_at_risk_aux)

lemma km_factor_range: "0 \<le> km_factor T E u \<and> km_factor T E u \<le> 1"
proof (cases "at_risk T u = 0")
  case True
  with events_le_at_risk [of T E u] show ?thesis by (simp add: km_factor_def)
next
  case False
  then have n: "(0::rat) < of_nat (at_risk T u)" by simp
  have d: "(of_nat (events_at T E u) :: rat) \<le> of_nat (at_risk T u)"
    using events_le_at_risk [of T E u] by (simp only: of_nat_le_iff)
  have "(of_nat (events_at T E u) / of_nat (at_risk T u) :: rat) \<le> 1"
    using n d by (simp only: divide_le_eq_1_pos)
  moreover have "0 \<le> (of_nat (events_at T E u) / of_nat (at_risk T u) :: rat)"
    by simp
  ultimately show ?thesis by (simp add: km_factor_def)
qed

lemma prod_list_unit_interval:
  fixes f :: "'a \<Rightarrow> rat"
  assumes "\<And>x. 0 \<le> f x \<and> f x \<le> 1"
  shows "0 \<le> prod_list (map f xs) \<and> prod_list (map f xs) \<le> 1"
proof (induction xs)
  case Nil
  show ?case by simp
next
  case (Cons x xs)
  with assms [of x] show ?case by (simp add: mult_le_one)
qed

lemma prod_list_filter_split:
  fixes f :: "rat \<Rightarrow> rat"
  assumes "s \<le> t"
  shows "prod_list (map f (filter (\<lambda>u. u \<le> t) xs)) =
         prod_list (map f (filter (\<lambda>u. u \<le> s) xs)) *
         prod_list (map f (filter (\<lambda>u. s < u \<and> u \<le> t) xs))"
  using assms by (induction xs) auto

lemma filter_eq_distinct:
  "distinct xs \<Longrightarrow> u \<in> set xs \<Longrightarrow> filter (\<lambda>v. v = u) xs = [u]"
proof (induction xs)
  case Nil
  then show ?case by simp
next
  case (Cons x xs)
  then show ?case by (auto simp add: filter_empty_conv)
qed

lemma survival_function_range:
  "0 \<le> survival_function T E t \<and> survival_function T E t \<le> 1"
  unfolding survival_function_def by (rule prod_list_unit_interval) (rule km_factor_range)

lemma survival_function_split:
  assumes "s \<le> t"
  shows "survival_function T E t =
         survival_function T E s *
         prod_list (map (km_factor T E) (filter (\<lambda>u. s < u \<and> u \<le> t) (event_times T E)))"
  unfolding survival_function_def using assms by (rule prod_list_filter_split)

lemma survival_function_nonincreasing:
  assumes "s \<le> t"
  shows "survival_function T E t \<le> survival_function T E s"
proof -
  let ?p = "prod_list (map (km_factor T E) (filter (\<lambda>u. s < u \<and> u \<le> t) (event_times T E)))"
  have p: "?p \<le> 1"
    using prod_list_unit_interval [of "km_factor T E"] km_factor_range by blast
  have s: "0 \<le> survival_function T E s" using survival_function_range by blast
  have "survival_function T E s * ?p \<le> survival_function T E s * 1"
    using p s by (rule mult_left_mono)
  then show ?thesis
    unfolding survival_function_split [OF assms, of T E] by simp
qed

lemma survival_function_before_events:
  assumes "\<forall>u \<in> set (event_times T E). t < u"
  shows "survival_function T E t = 1"
proof -
  have "filter (\<lambda>u. u \<le> t) (event_times T E) = []"
    using assms by (auto simp add: filter_empty_conv)
  then show ?thesis by (simp add: survival_function_def)
qed

lemma survival_function_constant:
  assumes "s \<le> t" and "\<forall>v \<in> set (event_times T E). v \<le> s \<or> t < v"
  shows "survival_function T E t = survival_function T E s"
proof -
  have "filter (\<lambda>u. s < u \<and> u \<le> t) (event_times T E) = []"
    using assms(2) by (auto simp add: filter_empty_conv)
  then show ?thesis
    unfolding survival_function_split [OF assms(1), of T E] by simp
qed

lemma distinct_event_times: "distinct (event_times T E)"
  by (simp add: event_times_def)

lemma survival_function_step:
  assumes u: "u \<in> set (event_times T E)" and su: "s < u"
    and gap: "\<forall>v \<in> set (event_times T E). v \<le> s \<or> u \<le> v"
  shows "survival_function T E u = survival_function T E s * km_factor T E u"
proof -
  have "(\<lambda>v. s < v \<and> v \<le> u) x = (\<lambda>v. v = u) x" if "x \<in> set (event_times T E)" for x
    using that gap su by auto
  then have "filter (\<lambda>v. s < v \<and> v \<le> u) (event_times T E) =
             filter (\<lambda>v. v = u) (event_times T E)"
    by (intro filter_cong refl)
  also have "\<dots> = [u]"
    using distinct_event_times u by (rule filter_eq_distinct)
  finally have f: "filter (\<lambda>v. s < v \<and> v \<le> u) (event_times T E) = [u]" .
  from su have "s \<le> u" by simp
  then show ?thesis
    unfolding survival_function_split [OF \<open>s \<le> u\<close>, of T E] f by simp
qed

lemma event_times_subset: "set (event_times T E) \<subseteq> set T"
  by (auto simp add: event_times_def observed_events_def dest: set_zip_leftD)

lemma events_at_pos: "u \<in> set (event_times T E) \<Longrightarrow> 0 < events_at T E u"
  by (auto simp add: event_times_def events_at_def filter_empty_conv)

lemma km_factor_less_one:
  assumes "u \<in> set (event_times T E)"
  shows "km_factor T E u < 1"
proof -
  have d: "0 < events_at T E u" using assms by (rule events_at_pos)
  with events_le_at_risk [of T E u] have n: "0 < at_risk T u" by simp
  have "(0::rat) < of_nat (events_at T E u) / of_nat (at_risk T u)"
    using d n by simp
  then show ?thesis by (simp add: km_factor_def)
qed

lemma survival_function_at_lower_bound:
  assumes "\<forall>v \<in> set T. m \<le> v"
  shows "survival_function T E m = 1 \<longleftrightarrow> m \<notin> set (event_times T E)"
proof (cases "m \<in> set (event_times T E)")
  case True
  have "(\<lambda>v. v \<le> m) x = (\<lambda>v. v = m) x" if "x \<in> set (event_times T E)" for x
  proof -
    from that event_times_subset [of T E] have "x \<in> set T" by blast
    with assms have "m \<le> x" by blast
    then show ?thesis by auto
  qed
  then have "filter (\<lambda>v. v \<le> m) (event_times T E) = filter (\<lambda>v. v = m) (event_times T E)"
    by (intro filter_cong refl)
  also have "\<dots> = [m]"
    using distinct_event_times True by (rule filter_eq_distinct)
  finally have "survival_function T E m = km_factor T E m"
    by (simp add: survival_function_def)
  with km_factor_less_one [OF True] True show ?thesis by simp
next
  case False
  have "m < u" if "u \<in> set (event_times T E)" for u
  proof -
    from that event_times_subset [of T E] have "u \<in> set T" by blast
    with assms have "m \<le> u" by blast
    with that False show ?thesis by (auto simp add: less_le)
  qed
  then have "\<forall>u \<in> set (event_times T E). m < u" by blast
  then have "survival_function T E m = 1" by (rule survival_function_before_events)
  with False show ?thesis by simp
qed


section \<open>The survival-record view\<close>

text \<open>
  C1. The view has one survival record for each row of the patients dataset, in the same
  position. In that record status is 1 exactly when the row's death_date is not NULL and 0
  exactly when it is NULL; time is datediff(death_date, START_DATE) when status is 1 and
  datediff(last_date_on_record, START_DATE) otherwise. So a death date wins over the last
  encounter date: diagnosis 2021-01-01, death 2021-04-01, last encounter 2021-12-01 gives
  status 1 and time 90, and diagnosis 2021-01-01, no death date, last encounter 2021-07-01
  gives status 0 and time 181.
\<close>

theorem survival_status_time:
  "length (lung_cancer_survival_data ds) = length ds \<and>
   (\<forall>i < length ds.
      (sv_status (lung_cancer_survival_data ds ! i) = 1 \<longleftrightarrow> ds_death_date (ds ! i) \<noteq> None) \<and>
      (sv_status (lung_cancer_survival_data ds ! i) = 0 \<longleftrightarrow> ds_death_date (ds ! i) = None) \<and>
      sv_time (lung_cancer_survival_data ds ! i) =
        (if sv_status (lung_cancer_survival_data ds ! i) = 1
         then datediff (ds_death_date (ds ! i)) (ds_START_DATE (ds ! i))
         else datediff (ds_last_date_on_record (ds ! i)) (ds_START_DATE (ds ! i))) \<and>
      (ds_START_DATE (ds ! i) = date_of 2021 1 1 \<and> ds_death_date (ds ! i) = date_of 2021 4 1 \<and>
       ds_last_date_on_record (ds ! i) = date_of 2021 12 1 \<longrightarrow>
         sv_status (lung_cancer_survival_data ds ! i) = 1 \<and>
         sv_time (lung_cancer_survival_data ds ! i) = Some 90) \<and>
      (ds_START_DATE (ds ! i) = date_of 2021 1 1 \<and> ds_death_date (ds ! i) = None \<and>
       ds_last_date_on_record (ds ! i) = date_of 2021 7 1 \<longrightarrow>
         sv_status (lung_cancer_survival_data ds ! i) = 0 \<and>
         sv_time (lung_cancer_survival_data ds ! i) = Some 181))"
  by (simp add: nth_survival date_2021_01_01 date_2021_04_01 date_2021_07_01 date_2021_12_01)

theorem survival_status_time_witness:
  "sv_status (lung_cancer_survival_data
      [\<lparr>ds_PATIENT = Some ''p1'', ds_START_DATE = date_of 2021 1 1, ds_type = ''SCLC'',
        ds_Id = Some ''p1'', ds_BIRTHDATE = date_of 1950 1 1, ds_death_date = date_of 2021 4 1,
        ds_GENDER = Some ''F'', ds_last_date_on_record = date_of 2021 12 1,
        ds_age_at_diagnosis = Some 73\<rparr>] ! 0) = 1 \<and>
   sv_time (lung_cancer_survival_data
      [\<lparr>ds_PATIENT = Some ''p1'', ds_START_DATE = date_of 2021 1 1, ds_type = ''SCLC'',
        ds_Id = Some ''p1'', ds_BIRTHDATE = date_of 1950 1 1, ds_death_date = date_of 2021 4 1,
        ds_GENDER = Some ''F'', ds_last_date_on_record = date_of 2021 12 1,
        ds_age_at_diagnosis = Some 73\<rparr>] ! 0) = Some 90"
proof -
  let ?r = "\<lparr>ds_PATIENT = Some ''p1'', ds_START_DATE = date_of 2021 1 1, ds_type = ''SCLC'',
        ds_Id = Some ''p1'', ds_BIRTHDATE = date_of 1950 1 1, ds_death_date = date_of 2021 4 1,
        ds_GENDER = Some ''F'', ds_last_date_on_record = date_of 2021 12 1,
        ds_age_at_diagnosis = Some 73\<rparr>"
  have i: "0 < length [?r]" by simp
  have h: "ds_START_DATE ([?r] ! 0) = date_of 2021 1 1 \<and>
           ds_death_date ([?r] ! 0) = date_of 2021 4 1 \<and>
           ds_last_date_on_record ([?r] ! 0) = date_of 2021 12 1" by simp
  from survival_status_time [of "[?r]"] i h show ?thesis by blast
qed

text \<open>
  C9. The survival-record view only adds status and time: column by column, START_DATE,
  death_date, GENDER, type and age_at_diagnosis of the survival records are those of the
  rows of the patients dataset, unchanged and in the same order.
\<close>

theorem survival_copies_fields:
  "map sv_START_DATE (lung_cancer_survival_data ds) = map ds_START_DATE ds \<and>
   map sv_death_date (lung_cancer_survival_data ds) = map ds_death_date ds \<and>
   map sv_GENDER (lung_cancer_survival_data ds) = map ds_GENDER ds \<and>
   map sv_type (lung_cancer_survival_data ds) = map ds_type ds \<and>
   map sv_age_at_diagnosis (lung_cancer_survival_data ds) = map ds_age_at_diagnosis ds"
  by (simp add: lung_cancer_survival_data_def comp_def)

text \<open>
  C5. A row whose end date (the last encounter date of a censored row, or the death date)
  lies before its diagnosis date is neither dropped nor clamped: the view keeps one record
  for every row, and the time of that record is the negative day difference itself.
\<close>

theorem negative_time_passed_through:
  "length (lung_cancer_survival_data ds) = length ds \<and>
   (\<forall>i < length ds. \<forall>e d.
      ds_START_DATE (ds ! i) = Some d \<and> e < d \<and>
      ((ds_death_date (ds ! i) = None \<and> ds_last_date_on_record (ds ! i) = Some e) \<or>
       ds_death_date (ds ! i) = Some e) \<longrightarrow>
      sv_time (lung_cancer_survival_data ds ! i) = Some (e - d) \<and> e - d < 0)"
  by (auto simp add: nth_survival)

theorem negative_time_passed_through_witness:
  "sv_time (lung_cancer_survival_data
      [\<lparr>ds_PATIENT = Some ''p1'', ds_START_DATE = Some 18262, ds_type = ''NSCLC'',
        ds_Id = Some ''p1'', ds_BIRTHDATE = Some (- 7305), ds_death_date = None,
        ds_GENDER = Some ''M'', ds_last_date_on_record = Some 18231,
        ds_age_at_diagnosis = Some 72\<rparr>] ! 0) = Some (- 31)"
proof -
  let ?r = "\<lparr>ds_PATIENT = Some ''p1'', ds_START_DATE = Some 18262, ds_type = ''NSCLC'',
        ds_Id = Some ''p1'', ds_BIRTHDATE = Some (- 7305), ds_death_date = None,
        ds_GENDER = Some ''M'', ds_last_date_on_record = Some 18231,
        ds_age_at_diagnosis = Some 72\<rparr>"
  have i: "0 < length [?r]" by simp
  have h: "ds_START_DATE ([?r] ! 0) = Some 18262 \<and> (18231 :: int) < 18262 \<and>
      ((ds_death_date ([?r] ! 0) = None \<and> ds_last_date_on_record ([?r] ! 0) = Some 18231) \<or>
       ds_death_date ([?r] ! 0) = Some 18231)" by simp
  from negative_time_passed_through [of "[?r]"] i h
  have "sv_time (lung_cancer_survival_data [?r] ! 0) = Some (18231 - 18262)" by blast
  then show ?thesis by simp
qed


section \<open>The cohort view\<close>

text \<open>
  C2. Every condition row contributes to the cohort on its own: one entry with type SCLC
  when its code is 254632001, one entry with type NSCLC when its code is 254637007, and
  nothing for any other code (a NULL code included). The entry carries the row's patient
  and start date.
\<close>

theorem cohort_by_code:
  "lung_cancer_cohort conds =
     concat (map (\<lambda>c.
       if cond_CODE c = Some 254632001
       then [\<lparr>lcc_PATIENT = cond_PATIENT c, lcc_START_DATE = cond_START c, lcc_type = ''SCLC''\<rparr>]
       else if cond_CODE c = Some 254637007
       then [\<lparr>lcc_PATIENT = cond_PATIENT c, lcc_START_DATE = cond_START c, lcc_type = ''NSCLC''\<rparr>]
       else []) conds)"
proof (induction conds)
  case Nil
  show ?case by (simp add: lung_cancer_cohort_def)
next
  case (Cons c cs)
  have "cond_CODE c = None \<or> (\<exists>k. cond_CODE c = Some k)" by (cases "cond_CODE c") simp_all
  with Cons show ?case
    by (auto simp add: lung_cancer_cohort_def sql_in_def to_date_def)
qed

section \<open>The patients dataset\<close>

text \<open>
  C3. In every row of the patients dataset, age_at_diagnosis is the number of days from
  BIRTHDATE to START_DATE, divided by 356 and rounded (NULL when a date is NULL). A patient
  born 1950-01-01 and diagnosed 2020-01-01 has age_at_diagnosis 72, which is not what a
  divisor of 365 gives.
\<close>

theorem age_at_diagnosis_356:
  "\<forall>r \<in> set (lung_cancer_patients_dataset pats conds encs).
     ds_age_at_diagnosis r =
       map_option (\<lambda>n. sql_round (of_int n / 356)) (datediff (ds_START_DATE r) (ds_BIRTHDATE r)) \<and>
     (ds_BIRTHDATE r = date_of 1950 1 1 \<and> ds_START_DATE r = date_of 2020 1 1 \<longrightarrow>
        ds_age_at_diagnosis r = Some 72 \<and>
        ds_age_at_diagnosis r \<noteq>
          map_option (\<lambda>n. sql_round (of_int n / 365)) (datediff (ds_START_DATE r) (ds_BIRTHDATE r)))"
proof
  fix r
  assume r: "r \<in> set (lung_cancer_patients_dataset pats conds encs)"
  have a: "ds_age_at_diagnosis r = age_at_diagnosis (ds_START_DATE r) (ds_BIRTHDATE r)"
    using r by (rule dataset_age)
  have b: "age_at_diagnosis (date_of 2020 1 1) (date_of 1950 1 1) = Some 72"
    by (simp add: age_at_diagnosis_def sql_round_quot date_1950_01_01 date_2020_01_01)
  have c: "map_option (\<lambda>n. sql_round (of_int n / 365)) (datediff (date_of 2020 1 1) (date_of 1950 1 1))
             = Some 70"
    by code_simp
  show "ds_age_at_diagnosis r =
       map_option (\<lambda>n. sql_round (of_int n / 356)) (datediff (ds_START_DATE r) (ds_BIRTHDATE r)) \<and>
     (ds_BIRTHDATE r = date_of 1950 1 1 \<and> ds_START_DATE r = date_of 2020 1 1 \<longrightarrow>
        ds_age_at_diagnosis r = Some 72 \<and>
        ds_age_at_diagnosis r \<noteq>
          map_option (\<lambda>n. sql_round (of_int n / 365)) (datediff (ds_START_DATE r) (ds_BIRTHDATE r)))"
    using a b c by (auto simp add: age_at_diagnosis_def)
qed

theorem age_at_diagnosis_356_witness:
  "map ds_age_at_diagnosis (lung_cancer_patients_dataset
     [\<lparr>pat_Id = Some ''p1'', pat_BIRTHDATE = date_of 1950 1 1, pat_DEATHDATE = None,
       pat_GENDER = Some ''M''\<rparr>]
     [\<lparr>cond_START = date_of 2020 1 1, cond_PATIENT = Some ''p1'', cond_CODE = Some 254637007,
       cond_DESCRIPTION = Some ''Non-small cell lung cancer (disorder)''\<rparr>]
     [\<lparr>enc_PATIENT = Some ''p1'', enc_STOP = date_of 2020 6 1\<rparr>]) = [Some 72]"
proof -
  let ?P = "[\<lparr>pat_Id = Some ''p1'', pat_BIRTHDATE = date_of 1950 1 1, pat_DEATHDATE = None,
       pat_GENDER = Some ''M''\<rparr>]"
  let ?C = "[\<lparr>cond_START = date_of 2020 1 1, cond_PATIENT = Some ''p1'', cond_CODE = Some 254637007,
       cond_DESCRIPTION = Some ''Non-small cell lung cancer (disorder)''\<rparr>]"
  let ?E = "[\<lparr>enc_PATIENT = Some ''p1'', enc_STOP = date_of 2020 6 1\<rparr>]"
  let ?r = "\<lparr>ds_PATIENT = Some ''p1'', ds_START_DATE = date_of 2020 1 1, ds_type = ''NSCLC'',
        ds_Id = Some ''p1'', ds_BIRTHDATE = date_of 1950 1 1, ds_death_date = None,
        ds_GENDER = Some ''M'', ds_last_date_on_record = Some 18414,
        ds_age_at_diagnosis = age_at_diagnosis (date_of 2020 1 1) (date_of 1950 1 1)\<rparr>"
  have ds: "lung_cancer_patients_dataset ?P ?C ?E = [?r]"
    by code_simp
  have r: "?r \<in> set (lung_cancer_patients_dataset ?P ?C ?E)"
    unfolding ds by simp
  have h: "ds_BIRTHDATE ?r = date_of 1950 1 1 \<and> ds_START_DATE ?r = date_of 2020 1 1"
    by simp
  from age_at_diagnosis_356 [of ?P ?C ?E] r h have "ds_age_at_diagnosis ?r = Some 72"
    by blast
  then show ?thesis unfolding ds by simp
qed


section \<open>The sign of the survival time\<close>

text \<open>
  C4, as stated, fails: a censored patient whose last encounter ended on 2019-12-01,
  before the diagnosis on 2020-01-01, gets the survival time -31.
\<close>

theorem negative_time_counterexample:
  "pipeline
     [\<lparr>pat_Id = Some ''p1'', pat_BIRTHDATE = date_of 1950 1 1, pat_DEATHDATE = None,
       pat_GENDER = Some ''M''\<rparr>]
     [\<lparr>cond_START = date_of 2020 1 1, cond_PATIENT = Some ''p1'', cond_CODE = Some 254637007,
       cond_DESCRIPTION = Some ''Non-small cell lung cancer (disorder)''\<rparr>]
     [\<lparr>enc_PATIENT = Some ''p1'', enc_STOP = date_of 2019 12 1\<rparr>]
   = [\<lparr>sv_START_DATE = date_of 2020 1 1, sv_death_date = None, sv_GENDER = Some ''M'',
        sv_type = ''NSCLC'', sv_age_at_diagnosis = Some 72, sv_status = 0,
        sv_time = Some (- 31)\<rparr>]"
  by code_simp


text \<open>
  C4, amended. The pipeline has one survival record for each row of the patients dataset.
  Its time is an integer number of days, or NULL; when it is not NULL, it is non-negative
  exactly when the end date of the row (death_date when there is one, last_date_on_record
  otherwise) is on or after the diagnosis date.
\<close>

theorem survival_time_sign:
  "length (pipeline pats conds encs) = length (lung_cancer_patients_dataset pats conds encs) \<and>
   (\<forall>i < length (lung_cancer_patients_dataset pats conds encs). \<forall>n.
      sv_time (pipeline pats conds encs ! i) = Some n \<longrightarrow>
        (0 \<le> n \<longleftrightarrow>
           (\<exists>e d. (if ds_death_date (lung_cancer_patients_dataset pats conds encs ! i) = None
                    then ds_last_date_on_record (lung_cancer_patients_dataset pats conds encs ! i)
                    else ds_death_date (lung_cancer_patients_dataset pats conds encs ! i)) = Some e \<and>
                   ds_START_DATE (lung_cancer_patients_dataset pats conds encs ! i) = Some d \<and>
                   d \<le> e)))"
  by (auto simp add: length_pipeline nth_pipeline nth_survival datediff_Some_iff split: if_splits)

theorem survival_time_sign_witness:
  "\<not> 0 \<le> (- 31 :: int) \<and>
   sv_time (pipeline
     [\<lparr>pat_Id = Some ''p1'', pat_BIRTHDATE = date_of 1950 1 1, pat_DEATHDATE = None,
       pat_GENDER = Some ''M''\<rparr>]
     [\<lparr>cond_START = date_of 2020 1 1, cond_PATIENT = Some ''p1'', cond_CODE = Some 254637007,
       cond_DESCRIPTION = Some ''Non-small cell lung cancer (disorder)''\<rparr>]
     [\<lparr>enc_PATIENT = Some ''p1'', enc_STOP = date_of 2019 12 1\<rparr>] ! 0) = Some (- 31) \<and>
   \<not> (\<exists>e d. (if ds_death_date (lung_cancer_patients_dataset
     [\<lparr>pat_Id = Some ''p1'', pat_BIRTHDATE = date_of 1950 1 1, pat_DEATHDATE = None,
       pat_GENDER = Some ''M''\<rparr>]
     [\<lparr>cond_START = date_of 2020 1 1, cond_PATIENT = Some ''p1'', cond_CODE = Some 254637007,
       cond_DESCRIPTION = Some ''Non-small cell lung cancer (disorder)''\<rparr>]
     [\<lparr>enc_PATIENT = Some ''p1'', enc_STOP = date_of 2019 12 1\<rparr>] ! 0) = None
                    then ds_last_date_on_record (lung_cancer_patients_dataset
     [\<lparr>pat_Id = Some ''p1'', pat_BIRTHDATE = date_of 1950 1 1, pat_DEATHDATE = None,
       pat_GENDER = Some ''M''\<rparr>]
     [\<lparr>cond_START = date_of 2020 1 1, cond_PATIENT = Some ''p1'', cond_CODE = Some 254637007,
       cond_DESCRIPTION = Some ''Non-small cell lung cancer (disorder)''\<rparr>]
     [\<lparr>enc_PATIENT = Some ''p1'', enc_STOP = date_of 2019 12 1\<rparr>] ! 0)
                    else ds_death_date (lung_cancer_patients_dataset
     [\<lparr>pat_Id = Some ''p1'', pat_BIRTHDATE = date_of 1950 1 1, pat_DEATHDATE = None,
       pat_GENDER = Some ''M''\<rparr>]
     [\<lparr>cond_START = date_of 2020 1 1, cond_PATIENT = Some ''p1'', cond_CODE = Some 254637007,
       cond_DESCRIPTION = Some ''Non-small cell lung cancer (disorder)''\<rparr>]
     [\<lparr>enc_PATIENT = Some ''p1'', enc_STOP = date_of 2019 12 1\<rparr>] ! 0)) = Some e \<and>
      ds_START_DATE (lung_cancer_patients_dataset
     [\<lparr>pat_Id = Some ''p1'', pat_BIRTHDATE = date_of 1950 1 1, pat_DEATHDATE = None,
       pat_GENDER = Some ''M''\<rparr>]
     [\<lparr>cond_START = date_of 2020 1 1, cond_PATIENT = Some ''p1'', cond_CODE = Some 254637007,
       cond_DESCRIPTION = Some ''Non-small cell lung cancer (disorder)''\<rparr>]
     [\<lparr>enc_PATIENT = Some ''p1'', enc_STOP = date_of 2019 12 1\<rparr>] ! 0) = Some d \<and> d \<le> e)"
proof -
  let ?P = "[\<lparr>pat_Id = Some ''p1'', pat_BIRTHDATE = date_of 1950 1 1, pat_DEATHDATE = None,
       pat_GENDER = Some ''M''\<rparr>]"
  let ?C = "[\<lparr>cond_START = date_of 2020 1 1, cond_PATIENT = Some ''p1'', cond_CODE = Some 254637007,
       cond_DESCRIPTION = Some ''Non-small cell lung cancer (disorder)''\<rparr>]"
  let ?E = "[\<lparr>enc_PATIENT = Some ''p1'', enc_STOP = date_of 2019 12 1\<rparr>]"
  have len: "0 < length (lung_cancer_patients_dataset ?P ?C ?E)" by code_simp
  have t: "sv_time (pipeline ?P ?C ?E ! 0) = Some (- 31)" by code_simp
  from survival_time_sign [of ?P ?C ?E] len t show ?thesis by fastforce
qed

section \<open>The last date on record of a censored patient\<close>

text \<open>
  C10, as stated, fails: a patient whose only encounter has no stop date passes the inner
  join, with a NULL last_date_on_record. The survival record is censored, its diagnosis
  date is not NULL, and its time is NULL.
\<close>

theorem null_stop_counterexample:
  "pipeline
     [\<lparr>pat_Id = Some ''p1'', pat_BIRTHDATE = date_of 1950 1 1, pat_DEATHDATE = None,
       pat_GENDER = Some ''M''\<rparr>]
     [\<lparr>cond_START = date_of 2020 1 1, cond_PATIENT = Some ''p1'', cond_CODE = Some 254632001,
       cond_DESCRIPTION = Some ''Small cell carcinoma of lung (disorder)''\<rparr>]
     [\<lparr>enc_PATIENT = Some ''p1'', enc_STOP = None\<rparr>]
   = [\<lparr>sv_START_DATE = date_of 2020 1 1, sv_death_date = None, sv_GENDER = Some ''M'',
        sv_type = ''SCLC'', sv_age_at_diagnosis = Some 72, sv_status = 0,
        sv_time = None\<rparr>] \<and>
   date_of 2020 1 1 \<noteq> None"
  by code_simp


text \<open>
  C10, amended. Every row of the patients dataset belongs to a patient with at least one
  encounter. Its last_date_on_record is not NULL exactly when one of that patient's
  encounters has a stop date that is not NULL. So a censored survival record of such a
  patient has a time that is not NULL whenever its diagnosis date is not NULL.
\<close>

theorem censored_time_not_null:
  "\<forall>i < length (lung_cancer_patients_dataset pats conds encs).
     (\<exists>e \<in> set encs.
        sql_eq (enc_PATIENT e) (ds_PATIENT (lung_cancer_patients_dataset pats conds encs ! i))) \<and>
     (ds_last_date_on_record (lung_cancer_patients_dataset pats conds encs ! i) \<noteq> None \<longleftrightarrow>
        (\<exists>e \<in> set encs.
           sql_eq (enc_PATIENT e) (ds_PATIENT (lung_cancer_patients_dataset pats conds encs ! i)) \<and>
           enc_STOP e \<noteq> None)) \<and>
     (sv_status (pipeline pats conds encs ! i) = 0 \<and>
      sv_START_DATE (pipeline pats conds encs ! i) \<noteq> None \<and>
      (\<exists>e \<in> set encs.
         sql_eq (enc_PATIENT e) (ds_PATIENT (lung_cancer_patients_dataset pats conds encs ! i)) \<and>
         enc_STOP e \<noteq> None) \<longrightarrow>
      sv_time (pipeline pats conds encs ! i) \<noteq> None)"
proof (intro allI impI)
  fix i
  let ?ds = "lung_cancer_patients_dataset pats conds encs"
  assume i: "i < length ?ds"
  then have "?ds ! i \<in> set ?ds" by simp
  then obtain k where k: "ds_PATIENT (?ds ! i) = Some k"
    and enc: "Some k \<in> enc_PATIENT ` set encs"
    and last: "ds_last_date_on_record (?ds ! i) =
                 sql_max (map enc_STOP (filter (\<lambda>e. enc_PATIENT e = Some k) encs))"
    using dataset_last_date by blast
  have a: "\<exists>e \<in> set encs. sql_eq (enc_PATIENT e) (ds_PATIENT (?ds ! i))"
    using enc k by (auto simp add: sql_eq_iff)
  have b: "ds_last_date_on_record (?ds ! i) \<noteq> None \<longleftrightarrow>
        (\<exists>e \<in> set encs. sql_eq (enc_PATIENT e) (ds_PATIENT (?ds ! i)) \<and> enc_STOP e \<noteq> None)"
    unfolding last k by (rule sql_max_filter_not_None)
  have c: "sv_time (pipeline pats conds encs ! i) \<noteq> None"
    if "sv_status (pipeline pats conds encs ! i) = 0"
      and "sv_START_DATE (pipeline pats conds encs ! i) \<noteq> None"
      and "\<exists>e \<in> set encs. sql_eq (enc_PATIENT e) (ds_PATIENT (?ds ! i)) \<and> enc_STOP e \<noteq> None"
  proof -
    from that(3) b obtain l where l: "ds_last_date_on_record (?ds ! i) = Some l" by blast
    from that(2) i obtain d where d: "ds_START_DATE (?ds ! i) = Some d"
      by (auto simp add: nth_pipeline nth_survival)
    from that(1) i have "ds_death_date (?ds ! i) = None"
      by (simp add: nth_pipeline nth_survival split: if_splits)
    with l d i show ?thesis by (simp add: nth_pipeline nth_survival)
  qed
  from a b c show "(\<exists>e \<in> set encs. sql_eq (enc_PATIENT e) (ds_PATIENT (?ds ! i))) \<and>
     (ds_last_date_on_record (?ds ! i) \<noteq> None \<longleftrightarrow>
        (\<exists>e \<in> set encs. sql_eq (enc_PATIENT e) (ds_PATIENT (?ds ! i)) \<and> enc_STOP e \<noteq> None)) \<and>
     (sv_status (pipeline pats conds encs ! i) = 0 \<and>
      sv_START_DATE (pipeline pats conds encs ! i) \<noteq> None \<and>
      (\<exists>e \<in> set encs. sql_eq (enc_PATIENT e) (ds_PATIENT (?ds ! i)) \<and> enc_STOP e \<noteq> None) \<longrightarrow>
      sv_time (pipeline pats conds encs ! i) \<noteq> None)"
    by blast
qed

theorem censored_time_not_null_witness:
  "sv_time (pipeline
     [\<lparr>pat_Id = Some ''p1'', pat_BIRTHDATE = date_of 1950 1 1, pat_DEATHDATE = None,
       pat_GENDER = Some ''M''\<rparr>]
     [\<lparr>cond_START = date_of 2020 1 1, cond_PATIENT = Some ''p1'', cond_CODE = Some 254632001,
       cond_DESCRIPTION = Some ''Small cell carcinoma of lung (disorder)''\<rparr>]
     [\<lparr>enc_PATIENT = Some ''p1'', enc_STOP = None\<rparr>,
      \<lparr>enc_PATIENT = Some ''p1'', enc_STOP = date_of 2020 6 1\<rparr>] ! 0) \<noteq> None"
proof -
  let ?P = "[\<lparr>pat_Id = Some ''p1'', pat_BIRTHDATE = date_of 1950 1 1, pat_DEATHDATE = None,
       pat_GENDER = Some ''M''\<rparr>]"
  let ?C = "[\<lparr>cond_START = date_of 2020 1 1, cond_PATIENT = Some ''p1'', cond_CODE = Some 254632001,
       cond_DESCRIPTION = Some ''Small cell carcinoma of lung (disorder)''\<rparr>]"
  let ?E = "[\<lparr>enc_PATIENT = Some ''p1'', enc_STOP = None\<rparr>,
      \<lparr>enc_PATIENT = Some ''p1'', enc_STOP = date_of 2020 6 1\<rparr>]"
  have len: "0 < length (lung_cancer_patients_dataset ?P ?C ?E)" by code_simp
  have st: "sv_status (pipeline ?P ?C ?E ! 0) = 0" by code_simp
  have sd: "sv_START_DATE (pipeline ?P ?C ?E ! 0) \<noteq> None" by code_simp
  have pt: "ds_PATIENT (lung_cancer_patients_dataset ?P ?C ?E ! 0) = Some ''p1''" by code_simp
  have d: "date_of 2020 6 1 \<noteq> None" by code_simp
  have ex: "\<exists>e \<in> set ?E.
         sql_eq (enc_PATIENT e) (ds_PATIENT (lung_cancer_patients_dataset ?P ?C ?E ! 0)) \<and>
         enc_STOP e \<noteq> None"
    unfolding pt using d by simp
  from censored_time_not_null [of ?P ?C ?E] len st sd ex show ?thesis by blast
qed

section \<open>Cardinality of the join\<close>

text \<open>
  C6. When the ids of the patients table are distinct, the rows of the patients dataset
  are, one for one and in order, the cohort entries whose patient has at least one encounter
  and a patient record: each such entry (a patient with one matching condition) gives exactly
  one row, and the entries left out are exactly those whose patient has no encounter or no
  patient record.
\<close>

theorem dataset_one_row_per_cohort_entry:
  assumes "distinct (map pat_Id pats)"
  shows "map lcc_columns (lung_cancer_patients_dataset pats conds encs) =
           filter (\<lambda>c. (\<exists>e \<in> set encs. sql_eq (enc_PATIENT e) (lcc_PATIENT c)) \<and>
                        (\<exists>p \<in> set pats. sql_eq (pat_Id p) (lcc_PATIENT c)))
                  (lung_cancer_cohort conds)"
proof -
  let ?pad = "patients_and_dates pats encs"
  have cnt: "length (filter (\<lambda>pad. sql_eq (lcc_PATIENT c) (pad_Id pad)) ?pad) =
          (if (\<exists>e \<in> set encs. sql_eq (enc_PATIENT e) (lcc_PATIENT c)) \<and>
              (\<exists>p \<in> set pats. sql_eq (pat_Id p) (lcc_PATIENT c)) then 1 else 0)" for c
    using length_filter_sql_eq [OF distinct_pad_Id [OF assms], of "lcc_PATIENT c" encs]
    by (simp only: has_encounter_and_record_iff)
  have "map lcc_columns (lung_cancer_patients_dataset pats conds encs) =
          concat (map (\<lambda>c. replicate
             (length (filter (\<lambda>pad. sql_eq (lcc_PATIENT c) (pad_Id pad)) ?pad)) c)
             (lung_cancer_cohort conds))"
    unfolding lung_cancer_patients_dataset_def
    by (rule map_inner_join_left) (simp add: lcc_columns_def)
  also have "\<dots> = map (\<lambda>c. c)
       (filter (\<lambda>c. (\<exists>e \<in> set encs. sql_eq (enc_PATIENT e) (lcc_PATIENT c)) \<and>
                        (\<exists>p \<in> set pats. sql_eq (pat_Id p) (lcc_PATIENT c)))
                  (lung_cancer_cohort conds))"
    by (rule concat_replicate_filter) (rule cnt)
  finally show ?thesis by simp
qed

theorem dataset_one_row_per_cohort_entry_witness:
  "map lcc_columns (lung_cancer_patients_dataset
     [\<lparr>pat_Id = Some ''p1'', pat_BIRTHDATE = date_of 1950 1 1, pat_DEATHDATE = None,
       pat_GENDER = Some ''M''\<rparr>,
      \<lparr>pat_Id = Some ''p2'', pat_BIRTHDATE = date_of 1950 1 1, pat_DEATHDATE = None,
       pat_GENDER = Some ''F''\<rparr>]
     [\<lparr>cond_START = date_of 2020 1 1, cond_PATIENT = Some ''p1'', cond_CODE = Some 254637007,
       cond_DESCRIPTION = None\<rparr>,
      \<lparr>cond_START = date_of 2021 1 1, cond_PATIENT = Some ''p1'', cond_CODE = Some 254632001,
       cond_DESCRIPTION = None\<rparr>,
      \<lparr>cond_START = date_of 2021 1 1, cond_PATIENT = Some ''p2'', cond_CODE = Some 254632001,
       cond_DESCRIPTION = None\<rparr>,
      \<lparr>cond_START = date_of 2021 1 1, cond_PATIENT = Some ''p3'', cond_CODE = Some 254632001,
       cond_DESCRIPTION = None\<rparr>,
      \<lparr>cond_START = date_of 2021 1 1, cond_PATIENT = Some ''p1'', cond_CODE = Some 424132000,
       cond_DESCRIPTION = None\<rparr>]
     [\<lparr>enc_PATIENT = Some ''p1'', enc_STOP = date_of 2020 6 1\<rparr>,
      \<lparr>enc_PATIENT = Some ''p1'', enc_STOP = date_of 2021 7 1\<rparr>,
      \<lparr>enc_PATIENT = Some ''p3'', enc_STOP = date_of 2021 7 1\<rparr>]) =
   [\<lparr>lcc_PATIENT = Some ''p1'', lcc_START_DATE = date_of 2020 1 1, lcc_type = ''NSCLC''\<rparr>,
    \<lparr>lcc_PATIENT = Some ''p1'', lcc_START_DATE = date_of 2021 1 1, lcc_type = ''SCLC''\<rparr>]"
proof -
  let ?P = "[\<lparr>pat_Id = Some ''p1'', pat_BIRTHDATE = date_of 1950 1 1, pat_DEATHDATE = None,
       pat_GENDER = Some ''M''\<rparr>,
      \<lparr>pat_Id = Some ''p2'', pat_BIRTHDATE = date_of 1950 1 1, pat_DEATHDATE = None,
       pat_GENDER = Some ''F''\<rparr>]"
  let ?C = "[\<lparr>cond_START = date_of 2020 1 1, cond_PATIENT = Some ''p1'', cond_CODE = Some 254637007,
       cond_DESCRIPTION = None\<rparr>,
      \<lparr>cond_START = date_of 2021 1 1, cond_PATIENT = Some ''p1'', cond_CODE = Some 254632001,
       cond_DESCRIPTION = None\<rparr>,
      \<lparr>cond_START = date_of 2021 1 1, cond_PATIENT = Some ''p2'', cond_CODE = Some 254632001,
       cond_DESCRIPTION = None\<rparr>,
      \<lparr>cond_START = date_of 2021 1 1, cond_PATIENT = Some ''p3'', cond_CODE = Some 254632001,
       cond_DESCRIPTION = None\<rparr>,
      \<lparr>cond_START = date_of 2021 1 1, cond_PATIENT = Some ''p1'', cond_CODE = Some 424132000,
       cond_DESCRIPTION = None\<rparr>]"
  let ?E = "[\<lparr>enc_PATIENT = Some ''p1'', enc_STOP = date_of 2020 6 1\<rparr>,
      \<lparr>enc_PATIENT = Some ''p1'', enc_STOP = date_of 2021 7 1\<rparr>,
      \<lparr>enc_PATIENT = Some ''p3'', enc_STOP = date_of 2021 7 1\<rparr>]"
  have d: "distinct (map pat_Id ?P)" by simp
  have "map lcc_columns (lung_cancer_patients_dataset ?P ?C ?E) =
          filter (\<lambda>c. (\<exists>e \<in> set ?E. sql_eq (enc_PATIENT e) (lcc_PATIENT c)) \<and>
                       (\<exists>p \<in> set ?P. sql_eq (pat_Id p) (lcc_PATIENT c)))
                 (lung_cancer_cohort ?C)"
    using d by (rule dataset_one_row_per_cohort_entry)
  also have "\<dots> =
     [\<lparr>lcc_PATIENT = Some ''p1'', lcc_START_DATE = date_of 2020 1 1, lcc_type = ''NSCLC''\<rparr>,
      \<lparr>lcc_PATIENT = Some ''p1'', lcc_START_DATE = date_of 2021 1 1, lcc_type = ''SCLC''\<rparr>]"
    by code_simp
  finally show ?thesis .
qed

section \<open>Determinism\<close>

text \<open>
  C7. The survival records are a function of the three tables alone, and as a bag of records
  they depend only on the bags of rows of the tables: two runs on the same patients,
  conditions and encounters, in whatever order the rows are read, produce the same survival
  records.
\<close>

theorem pipeline_deterministic:
  "mset pats = mset pats' \<Longrightarrow> mset conds = mset conds' \<Longrightarrow> mset encs = mset encs' \<Longrightarrow>
   mset (pipeline pats conds encs) = mset (pipeline pats' conds' encs')"
proof -
  assume "mset pats = mset pats'" "mset conds = mset conds'" "mset encs = mset encs'"
  then have "mset (lung_cancer_patients_dataset pats conds encs) =
             mset (lung_cancer_patients_dataset pats' conds' encs')"
    by (rule mset_dataset_cong)
  then show ?thesis
    by (simp only: pipeline_def lung_cancer_survival_data_def mset_map)
qed

theorem pipeline_deterministic_witness:
  "mset (pipeline
     [\<lparr>pat_Id = Some ''p1'', pat_BIRTHDATE = date_of 1950 1 1, pat_DEATHDATE = None,
       pat_GENDER = Some ''M''\<rparr>,
      \<lparr>pat_Id = Some ''p2'', pat_BIRTHDATE = date_of 1950 1 1, pat_DEATHDATE = date_of 2021 4 1,
       pat_GENDER = Some ''F''\<rparr>]
     [\<lparr>cond_START = date_of 2020 1 1, cond_PATIENT = Some ''p1'', cond_CODE = Some 254637007,
       cond_DESCRIPTION = None\<rparr>,
      \<lparr>cond_START = date_of 2021 1 1, cond_PATIENT = Some ''p2'', cond_CODE = Some 254632001,
       cond_DESCRIPTION = None\<rparr>]
     [\<lparr>enc_PATIENT = Some ''p1'', enc_STOP = date_of 2020 6 1\<rparr>,
      \<lparr>enc_PATIENT = Some ''p2'', enc_STOP = date_of 2021 4 1\<rparr>,
      \<lparr>enc_PATIENT = Some ''p1'', enc_STOP = date_of 2021 7 1\<rparr>]) =
   mset (pipeline
     [\<lparr>pat_Id = Some ''p2'', pat_BIRTHDATE = date_of 1950 1 1, pat_DEATHDATE = date_of 2021 4 1,
       pat_GENDER = Some ''F''\<rparr>,
      \<lparr>pat_Id = Some ''p1'', pat_BIRTHDATE = date_of 1950 1 1, pat_DEATHDATE = None,
       pat_GENDER = Some ''M''\<rparr>]
     [\<lparr>cond_START = date_of 2021 1 1, cond_PATIENT = Some ''p2'', cond_CODE = Some 254632001,
       cond_DESCRIPTION = None\<rparr>,
      \<lparr>cond_START = date_of 2020 1 1, cond_PATIENT = Some ''p1'', cond_CODE = Some 254637007,
       cond_DESCRIPTION = None\<rparr>]
     [\<lparr>enc_PATIENT = Some ''p1'', enc_STOP = date_of 2021 7 1\<rparr>,
      \<lparr>enc_PATIENT = Some ''p2'', enc_STOP = date_of 2021 4 1\<rparr>,
      \<lparr>enc_PATIENT = Some ''p1'', enc_STOP = date_of 2020 6 1\<rparr>])"
proof (rule pipeline_deterministic)
  show "mset [\<lparr>pat_Id = Some ''p1'', pat_BIRTHDATE = date_of 1950 1 1, pat_DEATHDATE = None,
       pat_GENDER = Some ''M''\<rparr>,
      \<lparr>pat_Id = Some ''p2'', pat_BIRTHDATE = date_of 1950 1 1, pat_DEATHDATE = date_of 2021 4 1,
       pat_GENDER = Some ''F''\<rparr>] =
    mset [\<lparr>pat_Id = Some ''p2'', pat_BIRTHDATE = date_of 1950 1 1, pat_DEATHDATE = date_of 2021 4 1,
       pat_GENDER = Some ''F''\<rparr>,
      \<lparr>pat_Id = Some ''p1'', pat_BIRTHDATE = date_of 1950 1 1, pat_DEATHDATE = None,
       pat_GENDER = Some ''M''\<rparr>]"
    by (simp only: mset.simps add_mset_commute)
  show "mset [\<lparr>cond_START = date_of 2020 1 1, cond_PATIENT = Some ''p1'', cond_CODE = Some 254637007,
       cond_DESCRIPTION = None\<rparr>,
      \<lparr>cond_START = date_of 2021 1 1, cond_PATIENT = Some ''p2'', cond_CODE = Some 254632001,
       cond_DESCRIPTION = None\<rparr>] =
    mset [\<lparr>cond_START = date_of 2021 1 1, cond_PATIENT = Some ''p2'', cond_CODE = Some 254632001,
       cond_DESCRIPTION = None\<rparr>,
      \<lparr>cond_START = date_of 2020 1 1, cond_PATIENT = Some ''p1'', cond_CODE = Some 254637007,
       cond_DESCRIPTION = None\<rparr>]"
    by (simp only: mset.simps add_mset_commute)
  show "mset [\<lparr>enc_PATIENT = Some ''p1'', enc_STOP = date_of 2020 6 1\<rparr>,
      \<lparr>enc_PATIENT = Some ''p2'', enc_STOP = date_of 2021 4 1\<rparr>,
      \<lparr>enc_PATIENT = Some ''p1'', enc_STOP = date_of 2021 7 1\<rparr>] =
    mset [\<lparr>enc_PATIENT = Some ''p1'', enc_STOP = date_of 2021 7 1\<rparr>,
      \<lparr>enc_PATIENT = Some ''p2'', enc_STOP = date_of 2021 4 1\<rparr>,
      \<lparr>enc_PATIENT = Some ''p1'', enc_STOP = date_of 2020 6 1\<rparr>]"
    by (simp only: mset.simps add_mset_commute)
qed

section \<open>The Kaplan-Meier survival function\<close>

text \<open>
  C8, as stated, fails: with an event at time 0 the survival function is already below 1
  at \<open>t = 0\<close>, which is also the minimum observed time. Two observations with durations 0
  and 1, both events, give \<open>S(0) = 1/2\<close>.
\<close>

theorem kaplan_meier_event_at_zero_counterexample:
  "valid_input [0, 1] [1, 1] \<and> survival_function [0, 1] [1, 1] 0 = 1 / 2"
  by code_simp


text \<open>
  C8, amended. For every non-empty valid input the survival function is non-increasing in
  \<open>t\<close>; it is 1 at every \<open>t\<close> before the first observed event time; at each distinct observed
  event time it is the value just before, multiplied by \<open>1 - d_i / n_i\<close>, and it does not
  change between event times. At \<open>t = 0\<close>, and at any time no later than every duration (the
  minimum observed time for one), it is 1 exactly when no event is observed at that time.
\<close>

theorem kaplan_meier_survival_function:
  assumes "valid_input T E"
  shows "(\<forall>s t. s \<le> t \<longrightarrow> survival_function T E t \<le> survival_function T E s) \<and>
         (\<forall>t. (\<forall>u \<in> set (event_times T E). t < u) \<longrightarrow> survival_function T E t = 1) \<and>
         (\<forall>s u. u \<in> set (event_times T E) \<and> s < u \<and>
                 (\<forall>v \<in> set (event_times T E). v \<le> s \<or> u \<le> v) \<longrightarrow>
                 survival_function T E u =
                   survival_function T E s * (1 - of_nat (events_at T E u) / of_nat (at_risk T u))) \<and>
         (\<forall>s t. s \<le> t \<and> (\<forall>v \<in> set (event_times T E). v \<le> s \<or> t < v) \<longrightarrow>
                 survival_function T E t = survival_function T E s) \<and>
         (survival_function T E 0 = 1 \<longleftrightarrow> 0 \<notin> set (event_times T E)) \<and>
         (\<forall>m. (\<forall>v \<in> set T. m \<le> v) \<longrightarrow>
              (survival_function T E m = 1 \<longleftrightarrow> m \<notin> set (event_times T E)))"
proof -
  have nonneg: "\<forall>v \<in> set T. 0 \<le> v"
    using assms by (simp add: valid_input_def list_all_iff)
  have a: "\<forall>s t. s \<le> t \<longrightarrow> survival_function T E t \<le> survival_function T E s"
    using survival_function_nonincreasing by blast
  have b: "\<forall>t. (\<forall>u \<in> set (event_times T E). t < u) \<longrightarrow> survival_function T E t = 1"
    using survival_function_before_events by blast
  have c: "\<forall>s u. u \<in> set (event_times T E) \<and> s < u \<and>
                 (\<forall>v \<in> set (event_times T E). v \<le> s \<or> u \<le> v) \<longrightarrow>
                 survival_function T E u =
                   survival_function T E s * (1 - of_nat (events_at T E u) / of_nat (at_risk T u))"
    using survival_function_step [of _ T E] unfolding km_factor_def by blast
  have d: "\<forall>s t. s \<le> t \<and> (\<forall>v \<in> set (event_times T E). v \<le> s \<or> t < v) \<longrightarrow>
                 survival_function T E t = survival_function T E s"
    using survival_function_constant by blast
  have e: "survival_function T E 0 = 1 \<longleftrightarrow> 0 \<notin> set (event_times T E)"
    using nonneg by (rule survival_function_at_lower_bound)
  have f: "\<forall>m. (\<forall>v \<in> set T. m \<le> v) \<longrightarrow>
              (survival_function T E m = 1 \<longleftrightarrow> m \<notin> set (event_times T E))"
    using survival_function_at_lower_bound by blast
  from a b c d e f show ?thesis by (intro conjI)
qed

theorem kaplan_meier_survival_function_witness:
  "survival_function [2, 3, 3, 5] [1, 0, 1, 1] 3 \<le> survival_function [2, 3, 3, 5] [1, 0, 1, 1] 2 \<and>
   survival_function [2, 3, 3, 5] [1, 0, 1, 1] 0 = 1 \<and>
   survival_function [2, 3, 3, 5] [1, 0, 1, 1] 3 =
     survival_function [2, 3, 3, 5] [1, 0, 1, 1] 2 *
       (1 - of_nat (events_at [2, 3, 3, 5] [1, 0, 1, 1] 3) / of_nat (at_risk [2, 3, 3, 5] 3))"
proof -
  let ?T = "[2, 3, 3, 5] :: rat list"
  let ?E = "[1, 0, 1, 1] :: int list"
  have v: "valid_input ?T ?E" by code_simp
  have le: "(2::rat) \<le> 3" by simp
  have z: "0 \<notin> set (event_times ?T ?E)" by code_simp
  have st: "3 \<in> set (event_times ?T ?E) \<and> (2::rat) < 3 \<and>
            (\<forall>v \<in> set (event_times ?T ?E). v \<le> 2 \<or> 3 \<le> v)" by code_simp
  from kaplan_meier_survival_function [OF v] le z st show ?thesis by blast
qed

end
